theory Spec2Isabelle
  imports Complex_Main "HOL-Library.Char_ord" "HOL-Library.List_Lexorder"
begin

section \<open>Dense vectors and matrices\<close>

text \<open>
  The solvers store their fields in \<^verbatim>\<open>Vector<double>\<close> and their operators in
  \<^verbatim>\<open>SparseMatrix<double>\<close>.  A vector is modelled as the list of its entries and a
  matrix as the list of its rows; \<^verbatim>\<open>double\<close> arithmetic is idealised as arithmetic
  on the reals.
\<close>

type_synonym vec = "real list"
type_synonym matrix = "real list list"

text \<open>\<^verbatim>\<open>Vector<double> v(n)\<close>: a vector of \<open>n\<close> zeros.\<close>

definition zero_vec :: "nat \<Rightarrow> vec" where
  "zero_vec n = replicate n 0"

text \<open>\<^verbatim>\<open>u.add(a, v)\<close>: \<open>u += a * v\<close>.\<close>

definition vadd :: "vec \<Rightarrow> real \<Rightarrow> vec \<Rightarrow> vec" where
  "vadd u a v = map2 (\<lambda>x y. x + a * y) u v"

text \<open>\<^verbatim>\<open>u.add(a, v, b, w)\<close>: \<open>u += a * v + b * w\<close>.\<close>

definition vadd2 :: "vec \<Rightarrow> real \<Rightarrow> vec \<Rightarrow> real \<Rightarrow> vec \<Rightarrow> vec" where
  "vadd2 u a v b w = map2 (\<lambda>x (y, z). x + a * y + b * z) u (zip v w)"

text \<open>\<^verbatim>\<open>u -= v\<close>.\<close>

definition vsub :: "vec \<Rightarrow> vec \<Rightarrow> vec" where
  "vsub u v = map2 (\<lambda>x y. x - y) u v"

text \<open>\<^verbatim>\<open>u *= a\<close>.\<close>

definition vscale :: "vec \<Rightarrow> real \<Rightarrow> vec" where
  "vscale u a = map (\<lambda>x. x * a) u"

text \<open>The product of one matrix row with a vector.\<close>

definition row_dot :: "real list \<Rightarrow> vec \<Rightarrow> real" where
  "row_dot r v = sum_list (map2 (\<lambda>x y. x * y) r v)"

text \<open>
  \<^verbatim>\<open>A.vmult(dst, src)\<close>: \<open>dst = A * src\<close>.  The previous contents of \<open>dst\<close> are
  overwritten, so the result does not depend on them.
\<close>

definition vmult :: "matrix \<Rightarrow> vec \<Rightarrow> vec \<Rightarrow> vec" where
  "vmult A dst src = map (\<lambda>r. row_dot r src) A"

text \<open>\<^verbatim>\<open>A.el(i, j)\<close> and \<^verbatim>\<open>A.set(i, j, x)\<close>.\<close>

definition el :: "matrix \<Rightarrow> nat \<Rightarrow> nat \<Rightarrow> real" where
  "el A i j = A ! i ! j"

definition set_el :: "matrix \<Rightarrow> nat \<Rightarrow> nat \<Rightarrow> real \<Rightarrow> matrix" where
  "set_el A i j x = A[i := (A ! i)[j := x]]"

text \<open>\<^verbatim>\<open>A.add(a, B)\<close>: \<open>A += a * B\<close>.\<close>

definition madd :: "matrix \<Rightarrow> real \<Rightarrow> matrix \<Rightarrow> matrix" where
  "madd A a B = map2 (\<lambda>r s. map2 (\<lambda>x y. x + a * y) r s) A B"

section \<open>Solid integrator: Newmark-beta time stepping\<close>

text \<open>
  The three constants computed at the top of \<^verbatim>\<open>LinearElasticity::run_one_step\<close>
  from \<^verbatim>\<open>parameters.damping\<close>.
\<close>

record newmark =
  alpha :: real
  gamma :: real
  beta :: real

definition newmark_constants :: "real \<Rightarrow> newmark" where
  "newmark_constants damping =
     (let a = - damping;
          g = 0.5 - a;
          b = (1 - a)\<^sup>2 / 4
      in \<lparr>alpha = a, gamma = g, beta = b\<rparr>)"

text \<open>
  Failures of the run.  A configuration error is an \<^verbatim>\<open>Assert\<close>/\<^verbatim>\<open>AssertThrow\<close> whose
  condition is false; a convergence error is a linear solve that misses its tolerance.
\<close>

datatype error = ConfigurationError | ConvergenceError

text \<open>
  The members of the solid solver that \<^verbatim>\<open>run_one_step\<close> reads and writes, with the
  time-step size, step index and current time of its \<^verbatim>\<open>time\<close> member.
\<close>

record solid_state =
  n_dofs :: nat
  system_matrix :: matrix
  system_matrix_updated :: matrix
  stiffness_matrix :: matrix
  damping_matrix :: matrix
  system_rhs :: vec
  nodal_mass :: vec
  added_mass_effect :: vec
  previous_displacement :: vec
  previous_velocity :: vec
  previous_acceleration :: vec
  current_displacement :: vec
  current_velocity :: vec
  current_acceleration :: vec
  is_lag_penalty_explicit :: bool
  delta_t :: real
  timestep :: nat
  time_current :: real

record solid_parameters =
  damping :: real
  simulation_type :: string

text \<open>
  The two collaborators of a step.  \<open>solve A x b\<close> is \<^verbatim>\<open>this->solve(A, x, b)\<close>: it
  returns the new contents of \<open>x\<close>, or fails.  \<open>assemble is_initial assemble_matrix\<close> is
  \<^verbatim>\<open>LinearElasticity::assemble\<close>, which integrates over the cells of the mesh and writes
  the matrices and right-hand side of the state.
\<close>

type_synonym linear_solve = "matrix \<Rightarrow> vec \<Rightarrow> vec \<Rightarrow> error + vec"
type_synonym assembly = "bool \<Rightarrow> bool \<Rightarrow> solid_state \<Rightarrow> solid_state"

definition assemble_system :: "assembly \<Rightarrow> bool \<Rightarrow> solid_state \<Rightarrow> solid_state" where
  "assemble_system assemble is_initial s = assemble is_initial True s"

definition assemble_rhs :: "assembly \<Rightarrow> solid_state \<Rightarrow> solid_state" where
  "assemble_rhs assemble s = assemble False False s"

text \<open>\<^verbatim>\<open>time.increment()\<close>: one more step, \<open>delta_t\<close> later.\<close>

definition time_increment :: "solid_state \<Rightarrow> solid_state" where
  "time_increment s = s\<lparr>timestep := timestep s + 1, time_current := time_current s + delta_t s\<rparr>"

text \<open>
  The loop \<^verbatim>\<open>system_matrix_updated.set(i, i, system_matrix.el(i, i) + added_mass_effect[i])\<close>
  over all degrees of freedom.
\<close>

definition add_added_mass :: "solid_state \<Rightarrow> matrix" where
  "add_added_mass s =
     fold (\<lambda>i A. set_el A i i (el (system_matrix s) i i + added_mass_effect s ! i))
       [0..<n_dofs s] (system_matrix_updated s)"

text \<open>
  The right-hand side handed to the solve of a step: \<open>tmp1\<close> of \<^verbatim>\<open>run_one_step\<close>,
  statement by statement, with \<open>dt\<close> the step size read before the clock advanced.
\<close>

definition effective_rhs :: "solid_parameters \<Rightarrow> real \<Rightarrow> solid_state \<Rightarrow> vec" where
  "effective_rhs p dt s =
     (let nm = newmark_constants (damping p);
          tmp1 = system_rhs s;
          tmp2 = previous_displacement s;
          tmp2 = vadd2 tmp2 (dt * (1 + alpha nm)) (previous_velocity s)
                   ((0.5 - beta nm) * dt * dt * (1 + alpha nm)) (previous_acceleration s);
          tmp3 = zero_vec (n_dofs s);
          tmp3 = vmult (stiffness_matrix s) tmp3 tmp2;
          tmp1 = vsub tmp1 tmp3
      in if simulation_type p = ''FSI'' \<and> \<not> is_lag_penalty_explicit s
         then (let tmp4 = zero_vec (n_dofs s);
                   tmp5 = zero_vec (n_dofs s);
                   tmp4 = vscale tmp4 (dt * (1 - gamma nm));
                   tmp4 = vmult (damping_matrix s) tmp4 (previous_acceleration s);
                   tmp5 = vmult (damping_matrix s) tmp5 (previous_velocity s);
                   tmp1 = vsub tmp1 tmp4;
                   tmp1 = vsub tmp1 tmp5
               in tmp1)
         else tmp1)"

text \<open>The matrix handed to the same solve: \<open>system_matrix_updated\<close> after its updates.\<close>

definition effective_matrix :: "solid_parameters \<Rightarrow> real \<Rightarrow> solid_state \<Rightarrow> matrix" where
  "effective_matrix p dt s =
     (let nm = newmark_constants (damping p)
      in if simulation_type p = ''FSI''
         then (let A = add_added_mass s
               in if \<not> is_lag_penalty_explicit s
                  then madd A (gamma nm * dt) (damping_matrix s)
                  else A)
         else system_matrix_updated s)"

text \<open>
  The block of \<^verbatim>\<open>run_one_step\<close> guarded by \<open>first_step\<close>: the initial acceleration
  from the mass matrix, then the system matrix of the later steps.
\<close>

definition initial_acceleration ::
  "linear_solve \<Rightarrow> assembly \<Rightarrow> solid_parameters \<Rightarrow> solid_state \<Rightarrow> error + solid_state" where
  "initial_acceleration solve assemble p s0 =
     (let nm = newmark_constants (damping p);
          s = assemble_system assemble True s0;
          s = s\<lparr>nodal_mass := map (\<lambda>i. el (system_matrix s) i i) [0..<n_dofs s]\<rparr>;
          s = s\<lparr>system_matrix_updated := system_matrix s\<rparr>;
          s = (if simulation_type p = ''FSI''
               then (let s = s\<lparr>system_matrix_updated := add_added_mass s\<rparr>
                     in if \<not> is_lag_penalty_explicit s
                        then (let tmp = vmult (damping_matrix s) (zero_vec (n_dofs s))
                                          (current_velocity s)
                              in s\<lparr>system_rhs := vadd (system_rhs s) (- 1) tmp\<rparr>)
                        else s)
               else s)
      in case solve (system_matrix_updated s) (previous_acceleration s) (system_rhs s) of
           Inl e \<Rightarrow> Inl e
         | Inr a \<Rightarrow>
             (let s = s\<lparr>previous_acceleration := a\<rparr>;
                  s = assemble_system assemble False s;
                  s = s\<lparr>system_matrix :=
                         madd (system_matrix s)
                           (delta_t s * delta_t s * beta nm * (1 + alpha nm))
                           (stiffness_matrix s)\<rparr>;
                  s = s\<lparr>system_matrix_updated := system_matrix s\<rparr>;
                  s = s\<lparr>current_acceleration := previous_acceleration s\<rparr>
              in Inr s))"

text \<open>
  The state in which a step builds and solves its system: the clock has advanced and, in
  an FSI run, the right-hand side has been assembled again.
\<close>

definition before_solve :: "assembly \<Rightarrow> solid_parameters \<Rightarrow> solid_state \<Rightarrow> solid_state" where
  "before_solve assemble p s0 =
     (let s = time_increment s0
      in if simulation_type p = ''FSI'' then assemble_rhs assemble s else s)"

text \<open>
  The part of \<^verbatim>\<open>run_one_step\<close> that every step runs, up to the assignment of the
  previous fields.  The calls that follow it (strain and stress, kinetic energy, output,
  refinement) are not part of this model.
\<close>

definition newmark_step ::
  "linear_solve \<Rightarrow> assembly \<Rightarrow> solid_parameters \<Rightarrow> solid_state \<Rightarrow> error + solid_state" where
  "newmark_step solve assemble p s0 =
     (let nm = newmark_constants (damping p);
          dt = delta_t s0;
          s = before_solve assemble p s0;
          tmp1 = effective_rhs p dt s;
          s = s\<lparr>system_matrix_updated := effective_matrix p dt s\<rparr>
      in case solve (system_matrix_updated s) (current_acceleration s) tmp1 of
           Inl e \<Rightarrow> Inl e
         | Inr a \<Rightarrow>
             (let s = s\<lparr>current_acceleration := a\<rparr>;
                  s = s\<lparr>current_velocity := previous_velocity s\<rparr>;
                  s = s\<lparr>current_velocity :=
                         vadd (current_velocity s) (dt * (1 - gamma nm)) (previous_acceleration s)\<rparr>;
                  s = s\<lparr>current_velocity :=
                         vadd (current_velocity s) (dt * gamma nm) (current_acceleration s)\<rparr>;
                  s = s\<lparr>current_displacement := previous_displacement s\<rparr>;
                  s = s\<lparr>current_displacement :=
                         vadd (current_displacement s) dt (previous_velocity s)\<rparr>;
                  s = s\<lparr>current_displacement :=
                         vadd (current_displacement s) (dt * dt * (0.5 - beta nm))
                           (previous_acceleration s)\<rparr>;
                  s = s\<lparr>current_displacement :=
                         vadd (current_displacement s) (dt * dt * beta nm)
                           (current_acceleration s)\<rparr>;
                  s = s\<lparr>previous_acceleration := current_acceleration s\<rparr>;
                  s = s\<lparr>previous_velocity := current_velocity s\<rparr>;
                  s = s\<lparr>previous_displacement := current_displacement s\<rparr>
              in Inr s))"

definition run_one_step ::
  "linear_solve \<Rightarrow> assembly \<Rightarrow> solid_parameters \<Rightarrow> bool \<Rightarrow> solid_state
     \<Rightarrow> error + solid_state" where
  "run_one_step solve assemble p first_step s =
     (if first_step
      then (case initial_acceleration solve assemble p s of
              Inl e \<Rightarrow> Inl e
            | Inr s' \<Rightarrow> newmark_step solve assemble p s')
      else newmark_step solve assemble p s)"

text \<open>
  A bar with one degree of freedom, and two runs on it, on which the statements about a
  step are evaluated.  Its assembly leaves the state as it is.
\<close>

definition one_dof_state :: solid_state where
  "one_dof_state =
     \<lparr>n_dofs = 1, system_matrix = [[1]], system_matrix_updated = [[1]],
      stiffness_matrix = [[2]], damping_matrix = [[3]], system_rhs = [10],
      nodal_mass = [1], added_mass_effect = [0],
      previous_displacement = [1], previous_velocity = [1], previous_acceleration = [1],
      current_displacement = [1], current_velocity = [1], current_acceleration = [1],
      is_lag_penalty_explicit = False, delta_t = 1, timestep = 1, time_current = 1\<rparr>"

definition keep_assembly :: assembly where
  "keep_assembly is_initial assemble_matrix s = s"

definition solid_run :: solid_parameters where
  "solid_run = \<lparr>damping = 0, simulation_type = ''Solid''\<rparr>"

definition fsi_run :: solid_parameters where
  "fsi_run = \<lparr>damping = 0, simulation_type = ''FSI''\<rparr>"

section \<open>Fluid integrator: indicator-driven assembly\<close>

text \<open>
  \<^verbatim>\<open>Tensor<1, dim>\<close> as the list of its components and \<^verbatim>\<open>Tensor<2, dim>\<close> as the list
  of its rows, with their scalar products.
\<close>

type_synonym tensor1 = "real list"
type_synonym tensor2 = "real list list"

definition dot1 :: "tensor1 \<Rightarrow> tensor1 \<Rightarrow> real" where
  "dot1 a b = sum_list (map2 (\<lambda>x y. x * y) a b)"

definition scalar_product :: "tensor2 \<Rightarrow> tensor2 \<Rightarrow> real" where
  "scalar_product a b = sum_list (map2 dot1 a b)"

text \<open>
  The parameters that the assembly reads; \<open>fluid_solid_rho\<close> is \<^verbatim>\<open>parameters.solid_rho\<close>.
\<close>

record fluid_parameters =
  viscosity :: real
  fluid_rho :: real
  fluid_solid_rho :: real
  penalty_scale_factor :: real
  gravity :: tensor1

text \<open>
  What \<^verbatim>\<open>Stokes::assemble\<close> reads at one quadrature point of a cell: the weight, the
  shape-function values filled by the loop over \<open>k\<close>, and the present velocity.
\<close>

record quadrature_point =
  JxW :: real
  phi_u :: "tensor1 list"
  div_phi_u :: "real list"
  phi_p :: "real list"
  symgrad_phi_u :: "tensor2 list"
  grad_phi_u :: "tensor2 list"
  current_velocity_value :: tensor1

text \<open>The two mass coefficients computed before the loop over the cells.\<close>

definition dt_inv :: "real \<Rightarrow> real" where
  "dt_inv dt = 1 / dt"

definition mass_coef_s :: "fluid_parameters \<Rightarrow> real \<Rightarrow> real" where
  "mass_coef_s p dt = (1 + penalty_scale_factor p) * fluid_solid_rho p * dt_inv dt"

definition mass_coef_f :: "fluid_parameters \<Rightarrow> real \<Rightarrow> real" where
  "mass_coef_f p dt = fluid_rho p * dt_inv dt"

text \<open>
  The two additions to \<^verbatim>\<open>local_matrix(i, j)\<close> at one quadrature point of a cell with
  indicator \<open>ind\<close>: the velocity mass term, then the Stokes terms.
\<close>

definition add_mass_term ::
  "fluid_parameters \<Rightarrow> real \<Rightarrow> int \<Rightarrow> quadrature_point \<Rightarrow> nat \<Rightarrow> nat \<Rightarrow> real \<Rightarrow> real" where
  "add_mass_term p dt ind q i j entry =
     (if ind = 0
      then entry + mass_coef_f p dt * dot1 (phi_u q ! i) (phi_u q ! j) * JxW q
      else entry + mass_coef_s p dt * dot1 (phi_u q ! i) (phi_u q ! j) * JxW q)"

definition add_stokes_term ::
  "fluid_parameters \<Rightarrow> quadrature_point \<Rightarrow> nat \<Rightarrow> nat \<Rightarrow> real \<Rightarrow> real" where
  "add_stokes_term p q i j entry =
     entry + (2 * viscosity p * scalar_product (symgrad_phi_u q ! i) (symgrad_phi_u q ! j)
              - div_phi_u q ! i * phi_p q ! j - phi_p q ! i * div_phi_u q ! j) * JxW q"

text \<open>
  \<^verbatim>\<open>local_matrix(i, j)\<close> of a cell after the loop over its quadrature points, from zero.
\<close>

definition local_matrix_entry ::
  "fluid_parameters \<Rightarrow> real \<Rightarrow> int \<Rightarrow> quadrature_point list \<Rightarrow> nat \<Rightarrow> nat \<Rightarrow> real" where
  "local_matrix_entry p dt ind qs i j =
     fold (\<lambda>q entry. add_stokes_term p q i j (add_mass_term p dt ind q i j entry)) qs 0"

text \<open>
  The addition to \<^verbatim>\<open>local_preconditioner_matrix(i, j)\<close> at one quadrature point, where
  \<open>component k\<close> is \<^verbatim>\<open>fe.system_to_component_index(k).first\<close> and \<open>space_dim\<close> is
  \<^verbatim>\<open>dim\<close>.
\<close>

definition add_preconditioner_term ::
  "fluid_parameters \<Rightarrow> real \<Rightarrow> int \<Rightarrow> nat \<Rightarrow> (nat \<Rightarrow> nat) \<Rightarrow> quadrature_point
     \<Rightarrow> nat \<Rightarrow> nat \<Rightarrow> real \<Rightarrow> real" where
  "add_preconditioner_term p dt ind space_dim component q i j entry =
     (if component i < space_dim \<and> component j < space_dim
      then entry + ((if ind = 0 then mass_coef_f p dt else mass_coef_s p dt)
                      * dot1 (phi_u q ! i) (phi_u q ! j)
                    + viscosity p * scalar_product (grad_phi_u q ! i) (grad_phi_u q ! j))
                   * JxW q
      else if component i = space_dim \<and> component j = space_dim
      then entry + (1 / viscosity p * phi_p q ! i * phi_p q ! j) * JxW q
      else entry)"

text \<open>
  The additions to \<^verbatim>\<open>local_rhs(i)\<close> at one quadrature point that every cell makes:
  gravity, then the mass term of the present velocity.
\<close>

definition add_rhs_terms ::
  "fluid_parameters \<Rightarrow> real \<Rightarrow> int \<Rightarrow> quadrature_point \<Rightarrow> nat \<Rightarrow> real \<Rightarrow> real" where
  "add_rhs_terms p dt ind q i entry =
     (let entry = entry + dot1 (phi_u q ! i) (gravity p) * JxW q
      in entry + (if ind = 0 then mass_coef_f p dt else mass_coef_s p dt)
                   * dot1 (phi_u q ! i) (current_velocity_value q) * JxW q)"

text \<open>
  The coefficient in front of the velocity mass integral, and that integral and the
  integral of the Stokes terms over the quadrature points of a cell.
\<close>

definition mass_integral :: "quadrature_point list \<Rightarrow> nat \<Rightarrow> nat \<Rightarrow> real" where
  "mass_integral qs i j = (\<Sum>q\<leftarrow>qs. dot1 (phi_u q ! i) (phi_u q ! j) * JxW q)"

definition stokes_integral ::
  "fluid_parameters \<Rightarrow> quadrature_point list \<Rightarrow> nat \<Rightarrow> nat \<Rightarrow> real" where
  "stokes_integral p qs i j =
     (\<Sum>q\<leftarrow>qs. (2 * viscosity p * scalar_product (symgrad_phi_u q ! i) (symgrad_phi_u q ! j)
              - div_phi_u q ! i * phi_p q ! j - phi_p q ! i * div_phi_u q ! j) * JxW q)"

text \<open>
  A cell with one quadrature point and one velocity shape function, and a parameter set.
\<close>

definition unit_point :: quadrature_point where
  "unit_point =
     \<lparr>JxW = 1, phi_u = [[1, 0]], div_phi_u = [0], phi_p = [0],
      symgrad_phi_u = [[[0, 0], [0, 0]]], grad_phi_u = [[[0, 0], [0, 0]]],
      current_velocity_value = [0, 0]\<rparr>"

definition water_and_rubber :: fluid_parameters where
  "water_and_rubber =
     \<lparr>viscosity = 1, fluid_rho = 2, fluid_solid_rho = 6, penalty_scale_factor = 1,
      gravity = [0, 0]\<rparr>"

section \<open>Element degrees checked by the constructors\<close>

text \<open>
  The body of \<^verbatim>\<open>Stokes::Stokes\<close> is one \<^verbatim>\<open>Assert\<close> on the two element degrees of the
  parameters, and the body of \<^verbatim>\<open>SableWrap::SableWrap\<close> is one \<^verbatim>\<open>AssertThrow\<close> on them.
  Both are modelled as raising a configuration error when the condition is false (for
  \<^verbatim>\<open>Assert\<close> this is the behaviour of a debug build).  The degrees are integers.
\<close>

definition Stokes_constructor :: "int \<Rightarrow> int \<Rightarrow> error + unit" where
  "Stokes_constructor fluid_velocity_degree fluid_pressure_degree =
     (if fluid_velocity_degree - fluid_pressure_degree = 1
      then Inr ()
      else Inl ConfigurationError)"

text \<open>
  The condition of the wrapper is written
  \<^verbatim>\<open>fluid_velocity_degree == fluid_pressure_degree == 1\<close>.  In C++ \<^verbatim>\<open>==\<close> associates to
  the left: the first comparison yields a \<^verbatim>\<open>bool\<close>, which is converted to 0 or 1 and
  compared with 1.
\<close>

definition bool_to_int :: "bool \<Rightarrow> int" where
  "bool_to_int b = (if b then 1 else 0)"

definition SableWrap_constructor :: "int \<Rightarrow> int \<Rightarrow> error + unit" where
  "SableWrap_constructor fluid_velocity_degree fluid_pressure_degree =
     (if bool_to_int (fluid_velocity_degree = fluid_pressure_degree) = 1
      then Inr ()
      else Inl ConfigurationError)"

section \<open>Material of a cell in the solid integrator\<close>

text \<open>
  The constructor of \<^verbatim>\<open>LinearElasticity\<close> builds one material per solid part from the
  parameters, so \<^verbatim>\<open>material.size()\<close> is \<^verbatim>\<open>parameters.n_solid_parts\<close>.
\<close>

record material_parameters =
  n_solid_parts :: nat
  E :: "real list"
  nu :: "real list"
  solid_rho :: real
  eta :: "real list"

record linear_elastic_material =
  young :: real
  poisson :: real
  density :: real
  damping_coefficient :: real

definition LinearElasticity_materials :: "material_parameters \<Rightarrow> linear_elastic_material list" where
  "LinearElasticity_materials p =
     map (\<lambda>i. \<lparr>young = E p ! i, poisson = nu p ! i, density = solid_rho p,
                damping_coefficient = eta p ! i\<rparr>)
       [0..<n_solid_parts p]"

text \<open>
  \<^verbatim>\<open>material[k]\<close> is \<^verbatim>\<open>std::vector::operator[]\<close>, which checks nothing: an index outside
  the vector is not reported, the program reads whatever lies there.  The model keeps the
  two cases apart.  The index is an \<^verbatim>\<open>int\<close> converted to an unsigned size, so a negative
  one is outside as well.
\<close>

datatype 'a element = Element 'a | OutsideVector

definition vector_subscript :: "'a list \<Rightarrow> int \<Rightarrow> 'a element" where
  "vector_subscript v k =
     (if 0 \<le> k \<and> k < int (length v) then Element (v ! nat k) else OutsideVector)"

text \<open>
  The material that \<^verbatim>\<open>assemble\<close> takes for a cell with the given \<^verbatim>\<open>material_id\<close>, and
  the one that \<^verbatim>\<open>update_strain_and_stress\<close> takes.  Neither function has a statement
  that raises on the way, so both always return on the right.
\<close>

definition assemble_material ::
  "linear_elastic_material list \<Rightarrow> nat \<Rightarrow> error + linear_elastic_material element" where
  "assemble_material material cell_material_id =
     (let mat_id = int cell_material_id;
          mat_id = (if length material = 1 then 1 else mat_id)
      in Inr (vector_subscript material (mat_id - 1)))"

definition update_strain_and_stress_material ::
  "material_parameters \<Rightarrow> linear_elastic_material list \<Rightarrow> nat
     \<Rightarrow> error + linear_elastic_material element" where
  "update_strain_and_stress_material p material cell_material_id =
     (let mat_id = int cell_material_id;
          mat_id = (if n_solid_parts p = 1 then 1 else mat_id)
      in Inr (vector_subscript material (mat_id - 1)))"

text \<open>A run with two solid parts.\<close>

definition two_parts :: material_parameters where
  "two_parts = \<lparr>n_solid_parts = 2, E = [100, 200], nu = [0.3, 0.4], solid_rho = 1, eta = [0, 0]\<rparr>"

text \<open>A run with a single solid part.\<close>

definition one_part :: material_parameters where
  "one_part = \<lparr>n_solid_parts = 1, E = [100], nu = [0.3], solid_rho = 1, eta = [0]\<rparr>"

section \<open>External-coupling wrapper: the exchange loop\<close>

text \<open>
  \<^verbatim>\<open>MPI_Allreduce\<close> with \<^verbatim>\<open>MPI_MAX\<close> over all ranks: every rank passes one value and
  every rank receives the maximum of all of them.  Seen from one rank, the values are its
  own and those of the other ranks.
\<close>

definition mpi_allreduce_max :: "'a::linorder \<Rightarrow> 'a list \<Rightarrow> 'a" where
  "mpi_allreduce_max mine others = fold max others mine"

text \<open>
  \<^verbatim>\<open>SableWrap::All\<close>: every rank encodes its flag as 0 for true and 1 for false and
  compares the maximum with 0.  \<open>others\<close> are the flags of the other ranks.
\<close>

definition flag_to_int :: "bool \<Rightarrow> int" where
  "flag_to_int my_b = (if my_b = True then 0 else 1)"

definition All_reduce :: "bool \<Rightarrow> bool list \<Rightarrow> bool" where
  "All_reduce my_b others =
     (let ib = flag_to_int my_b;
          result = mpi_allreduce_max ib (map flag_to_int others)
      in result = 0)"

text \<open>
  The members of the wrapper that the loop reads and writes: the communication flag and
  the step index, current time and step size of its \<^verbatim>\<open>time\<close> member.
\<close>

record sable_state =
  is_comm_active :: bool
  sable_timestep :: nat
  sable_time_current :: real
  sable_delta_t :: real

text \<open>
  What the other ranks pass in one iteration of the loop: their step sizes for
  \<^verbatim>\<open>get_dt_sable\<close>, and their flags for the exchange of each of the two calls of
  \<^verbatim>\<open>run_one_step\<close> (the first call happens only while the current time is 0).
\<close>

record exchange =
  peer_dt :: "real list"
  peer_flags_first :: "bool list"
  peer_flags :: "bool list"

text \<open>
  \<^verbatim>\<open>SableWrap::run_one_step\<close>.  At step 0 it sets up the node and element counts and
  the ghost nodes; later it receives the counts and recomputes the flag.  The counts and
  the output do not enter the flag or the clock and are left out.
\<close>

definition SableWrap_run_one_step :: "sable_state \<Rightarrow> bool list \<Rightarrow> sable_state" where
  "SableWrap_run_one_step st others =
     (if sable_timestep st = 0
      then st
      else st\<lparr>is_comm_active := All_reduce (is_comm_active st) others\<rparr>)"

text \<open>
  \<^verbatim>\<open>SableWrap::get_dt_sable\<close>: the step size is the maximum over all ranks, this rank
  passing 0; then the clock advances by one step of that size.
\<close>

definition get_dt_sable :: "sable_state \<Rightarrow> real list \<Rightarrow> sable_state" where
  "get_dt_sable st others =
     (let dt = 0;
          dt = mpi_allreduce_max dt others;
          st = st\<lparr>sable_delta_t := dt\<rparr>
      in st\<lparr>sable_time_current := sable_time_current st + sable_delta_t st,
             sable_timestep := sable_timestep st + 1\<rparr>)"

text \<open>The body of the \<^verbatim>\<open>while\<close> loop of \<^verbatim>\<open>SableWrap::run\<close>.\<close>

definition loop_body :: "exchange \<Rightarrow> sable_state \<Rightarrow> sable_state" where
  "loop_body x st =
     (let st = (if sable_time_current st = 0
                then SableWrap_run_one_step st (peer_flags_first x)
                else st);
          st = get_dt_sable st (peer_dt x)
      in SableWrap_run_one_step st (peer_flags x))"

text \<open>
  The loop \<^verbatim>\<open>while (is_comm_active)\<close>, run against what the other ranks pass, one
  entry per iteration.  \<open>None\<close>: the loop is still running when the entries are used up.
\<close>

fun SableWrap_run :: "exchange list \<Rightarrow> sable_state \<Rightarrow> sable_state option" where
  "SableWrap_run [] st = (if is_comm_active st then None else Some st)"
| "SableWrap_run (x # xs) st =
     (if is_comm_active st then SableWrap_run xs (loop_body x st) else Some st)"

text \<open>
  The wrapper after \<^verbatim>\<open>initialize_system\<close>, and an iteration in which one of two peers
  reports its flag inactive.
\<close>

definition sable_start :: sable_state where
  "sable_start =
     \<lparr>is_comm_active = True, sable_timestep = 0, sable_time_current = 0, sable_delta_t = 0\<rparr>"

definition one_peer_inactive :: exchange where
  "one_peer_inactive = \<lparr>peer_dt = [1, 1], peer_flags_first = [], peer_flags = [True, False]\<rparr>"

definition all_peers_active :: exchange where
  "all_peers_active = \<lparr>peer_dt = [1, 1], peer_flags_first = [], peer_flags = [True, True]\<rparr>"

text \<open>
  The clock of a wrapper inside its loop: untouched (step 0 at time 0) or past time 0.
\<close>

definition clock_ok :: "sable_state \<Rightarrow> bool" where
  "clock_ok st \<longleftrightarrow>
     (sable_timestep st = 0 \<and> sable_time_current st = 0) \<or> 0 < sable_time_current st"

section \<open>Checkpoint manager of the shared solid solver\<close>






















section \<open>Fluid integrator: the pinned pressure degree of freedom\<close>

text \<open>
  The last part of \<^verbatim>\<open>Stokes::set_up_boundary_values\<close>, seen over all processes at once.
  A process is modelled by what this part reads on it: the degrees of freedom it owns, the
  pressure degrees of freedom that \<^verbatim>\<open>extract_dofs\<close> yields (an \<^verbatim>\<open>IndexSet\<close>, visited in
  ascending order) and the map from degrees of freedom to support points.  Hanging-node
  and velocity constraints, set up before, are not part of this model.
\<close>

type_synonym point = "real list"

record process =
  locally_owned_dofs :: "nat list"
  pressure_dofs :: "nat list"
  support_points :: "(nat \<times> point) list"

text \<open>\<^verbatim>\<open>p.distance(q)\<close>, the Euclidean distance.\<close>

definition point_distance :: "point \<Rightarrow> point \<Rightarrow> real" where
  "point_distance p q = sqrt (\<Sum>(a, b)\<leftarrow>zip p q. (a - b)\<^sup>2)"

definition target_point :: point where
  "target_point = [1.5, 0.5 / 2]"

text \<open>
  \<^verbatim>\<open>std::numeric_limits<double>::max()\<close> and \<^verbatim>\<open>numbers::invalid_dof_index\<close>, the largest
  value of the 64-bit index type.
\<close>

definition double_max :: real where
  "double_max = (2 - 1 / 2 ^ 52) * 2 ^ 1023"

definition invalid_dof_index :: nat where
  "invalid_dof_index = 2 ^ 64 - 1"

text \<open>The intersection of the pressure degrees of freedom with the owned ones.\<close>

definition locally_owned_pressure_dofs :: "process \<Rightarrow> nat list" where
  "locally_owned_pressure_dofs p =
     filter (\<lambda>i. i \<in> set (locally_owned_dofs p)) (pressure_dofs p)"

text \<open>
  The body of the loop over the locally owned pressure degrees of freedom, on the pair
  \<open>(local_min_distance, local_fixed_pressure_dof)\<close>, and the loop.
\<close>

definition closer :: "process \<Rightarrow> nat \<Rightarrow> real \<times> nat \<Rightarrow> real \<times> nat" where
  "closer p dof acc =
     (case map_of (support_points p) dof of
        None \<Rightarrow> acc
      | Some location \<Rightarrow>
          (let distance = point_distance location target_point
           in if distance < fst acc then (distance, dof) else acc))"

definition local_search :: "process \<Rightarrow> real \<times> nat" where
  "local_search p =
     fold (closer p) (locally_owned_pressure_dofs p) (double_max, invalid_dof_index)"








section \<open>Solid integrator: the lumped mass matrix\<close>

text \<open>
  The loop \<^verbatim>\<open>create lumped mass matrix\<close> of \<^verbatim>\<open>LinearElasticity::assemble\<close> on the
  \<open>dofs_per_cell\<close> by \<open>dofs_per_cell\<close> local matrix of a cell.  Pass \<open>i\<close> of the outer
  loop reads and writes row \<open>i\<close> only: it adds up the row, then overwrites it.
\<close>

definition lump_row :: "nat \<Rightarrow> nat \<Rightarrow> real list \<Rightarrow> real list" where
  "lump_row dofs_per_cell i row =
     (let sum = fold (\<lambda>j sum. sum + row ! j) [0..<dofs_per_cell] 0
      in map (\<lambda>j. if i = j then sum else 0) [0..<dofs_per_cell])"

definition lump :: "nat \<Rightarrow> matrix \<Rightarrow> matrix" where
  "lump dofs_per_cell local_matrix =
     map (\<lambda>i. lump_row dofs_per_cell i (local_matrix ! i)) [0..<dofs_per_cell]"

text \<open>
  Modelled from the spec: \<^verbatim>\<open>constraints.distribute_local_to_global\<close>, the mesh
  collaborator's operation that distributes a local contribution to the global system
  with hanging-node and Dirichlet elimination; its code is not part of the sources.  A
  constrained degree of freedom has a line of master degrees of freedom with weights (a
  hanging node) or an empty line (a Dirichlet value); it is eliminated, its contributions
  going to its masters with their weights.  A degree of freedom without a line stands for
  itself.  The global matrix is given by its entries.
\<close>

type_synonym constraint_lines = "(nat \<times> (nat \<times> real) list) list"
type_synonym entries = "nat \<Rightarrow> nat \<Rightarrow> real"

definition resolve :: "constraint_lines \<Rightarrow> nat \<Rightarrow> (nat \<times> real) list" where
  "resolve constraints d = (case map_of constraints d of None \<Rightarrow> [(d, 1)] | Some line \<Rightarrow> line)"

definition weight :: "constraint_lines \<Rightarrow> nat \<Rightarrow> nat \<Rightarrow> real" where
  "weight constraints d g = (\<Sum>(k, w)\<leftarrow>resolve constraints d. if k = g then w else 0)"

definition distribute_local_to_global ::
  "constraint_lines \<Rightarrow> matrix \<Rightarrow> nat list \<Rightarrow> entries \<Rightarrow> entries" where
  "distribute_local_to_global constraints local_matrix local_dof_indices global =
     (\<lambda>g h. global g h
        + (\<Sum>i<length local_dof_indices. \<Sum>j<length local_dof_indices.
             weight constraints (local_dof_indices ! i) g
               * weight constraints (local_dof_indices ! j) h
               * local_matrix ! i ! j))"

text \<open>The sum of row \<open>g\<close> of a global matrix with \<open>n\<close> degrees of freedom.\<close>

definition row_sum :: "nat \<Rightarrow> entries \<Rightarrow> nat \<Rightarrow> real" where
  "row_sum n global g = (\<Sum>h<n. global g h)"

text \<open>
  The weights of every degree of freedom of the cell add up to one over the \<open>n\<close> global
  degrees of freedom: so it is for a degree of freedom without a line and for a hanging
  node, and not for a Dirichlet value.
\<close>

definition unit_weights :: "constraint_lines \<Rightarrow> nat list \<Rightarrow> nat \<Rightarrow> bool" where
  "unit_weights constraints local_dof_indices n \<longleftrightarrow>
     (\<forall>j<length local_dof_indices. (\<Sum>h<n. weight constraints (local_dof_indices ! j) h) = 1)"

definition square :: "nat \<Rightarrow> matrix \<Rightarrow> bool" where
  "square n A \<longleftrightarrow> length A = n \<and> (\<forall>i<n. length (A ! i) = n)"

text \<open>
  The consistent mass matrix of a cell with two degrees of freedom, a hanging node 1
  between the degrees of freedom 0 and 2, and a Dirichlet value at 1.
\<close>

definition two_dof_mass :: matrix where
  "two_dof_mass = [[2, 1], [1, 2]]"

definition hanging_node :: constraint_lines where
  "hanging_node = [(1, [(0, 1 / 2), (2, 1 / 2)])]"

definition dirichlet_value :: constraint_lines where
  "dirichlet_value = [(1, [])]"

section \<open>Properties\<close>

text \<open>
  C4.  For every damping parameter \<open>d\<close> with \<open>0 \<le> d < 1\<close> the integrator's constants
  are \<open>alpha = - d\<close>, \<open>gamma = 0.5 - alpha\<close> and \<open>beta = (1 - alpha)\<^sup>2 / 4\<close>; hence
  \<open>beta \<ge> 0\<close> and \<open>gamma \<ge> 0.5 - alpha\<close>, and \<open>d = 0\<close> gives the classical
  \<open>beta = 0.25\<close>, \<open>gamma = 0.5\<close>.
\<close>

theorem newmark_constants_from_damping:
  assumes "0 \<le> d" and "d < 1"
  shows "alpha (newmark_constants d) = - d
       \<and> gamma (newmark_constants d) = 0.5 - alpha (newmark_constants d)
       \<and> beta (newmark_constants d) = (1 - alpha (newmark_constants d))\<^sup>2 / 4
       \<and> 0 \<le> beta (newmark_constants d)
       \<and> 0.5 - alpha (newmark_constants d) \<le> gamma (newmark_constants d)
       \<and> (d = 0 \<longrightarrow> beta (newmark_constants d) = 0.25 \<and> gamma (newmark_constants d) = 0.5)"
  by (simp add: newmark_constants_def power2_eq_square)

theorem newmark_constants_from_damping_witness:
  "(0::real) \<le> 0 \<and> (0::real) < 1
   \<and> alpha (newmark_constants 0) = 0 \<and> gamma (newmark_constants 0) = 0.5
   \<and> beta (newmark_constants 0) = 0.25 \<and> 0 \<le> beta (newmark_constants 0)"
  using newmark_constants_from_damping [of 0] by simp

lemma vadd_nth: "i < length u \<Longrightarrow> i < length v \<Longrightarrow> vadd u a v ! i = u ! i + a * v ! i"
  by (simp add: vadd_def)

lemma length_vadd: "length (vadd u a v) = min (length u) (length v)"
  by (simp add: vadd_def)

lemma vsub_nth: "i < length u \<Longrightarrow> i < length v \<Longrightarrow> vsub u v ! i = u ! i - v ! i"
  by (simp add: vsub_def)

lemma length_vsub: "length (vsub u v) = min (length u) (length v)"
  by (simp add: vsub_def)

lemma vmult_nth: "i < length A \<Longrightarrow> vmult A dst src ! i = row_dot (A ! i) src"
  by (simp add: vmult_def)

lemma length_vmult: "length (vmult A dst src) = length A"
  by (simp add: vmult_def)

text \<open>
  C5.  In a step that is not the first, once the solve has returned the new acceleration
  \<open>a\<^sub>n\<^sub>+\<^sub>1\<close>, the step sets the new velocity to
  \<open>v\<^sub>n + dt (1 - gamma) a\<^sub>n + dt gamma a\<^sub>n\<^sub>+\<^sub>1\<close> and the new displacement to
  \<open>d\<^sub>n + dt v\<^sub>n + dt\<^sup>2 (0.5 - beta) a\<^sub>n + dt\<^sup>2 beta a\<^sub>n\<^sub>+\<^sub>1\<close>, entry by entry, where
  \<open>d\<^sub>n\<close>, \<open>v\<^sub>n\<close>, \<open>a\<^sub>n\<close> are the previous fields.
\<close>

theorem newmark_update_laws:
  fixes solve :: linear_solve and assemble :: assembly and p :: solid_parameters and s0 :: solid_state
  defines "s \<equiv> before_solve assemble p s0"
  defines "dt \<equiv> delta_t s0"
  defines "nm \<equiv> newmark_constants (damping p)"
  assumes solved: "solve (effective_matrix p dt s) (current_acceleration s) (effective_rhs p dt s) = Inr a_new"
    and len: "length (previous_displacement s) = n" "length (previous_velocity s) = n"
      "length (previous_acceleration s) = n" "length a_new = n"
  shows "\<exists>s'. run_one_step solve assemble p False s0 = Inr s'
           \<and> current_acceleration s' = a_new
           \<and> length (current_velocity s') = n \<and> length (current_displacement s') = n
           \<and> (\<forall>i<n. current_velocity s' ! i =
                 previous_velocity s ! i + dt * (1 - gamma nm) * previous_acceleration s ! i
                   + dt * gamma nm * a_new ! i)
           \<and> (\<forall>i<n. current_displacement s' ! i =
                 previous_displacement s ! i + dt * previous_velocity s ! i
                   + dt\<^sup>2 * (0.5 - beta nm) * previous_acceleration s ! i
                   + dt\<^sup>2 * beta nm * a_new ! i)"
  using solved len
  unfolding run_one_step_def newmark_step_def s_def dt_def nm_def
  by (simp add: Let_def vadd_nth length_vadd power2_eq_square)

text \<open>
  C10.  In a step of an FSI run with the implicit Lagrangian penalty, every entry of the
  right-hand side of the solve is the assembled right-hand side, minus the stiffness
  matrix applied to the Newmark predictor, minus the damping matrix applied to the
  previous velocity, minus the damping matrix applied to the previous acceleration, the
  last two with coefficient one: the factor \<open>dt (1 - gamma)\<close> written into the temporary
  before the product does not reach the solve.
\<close>

theorem implicit_penalty_rhs:
  fixes assemble :: assembly and p :: solid_parameters and s0 :: solid_state
  defines "s \<equiv> before_solve assemble p s0"
  defines "dt \<equiv> delta_t s0"
  defines "nm \<equiv> newmark_constants (damping p)"
  defines "predictor \<equiv> vadd2 (previous_displacement s) (dt * (1 + alpha nm)) (previous_velocity s)
                   ((0.5 - beta nm) * dt * dt * (1 + alpha nm)) (previous_acceleration s)"
  assumes fsi: "simulation_type p = ''FSI''" and implicit: "\<not> is_lag_penalty_explicit s"
    and len: "length (system_rhs s) = n" "length (stiffness_matrix s) = n"
      "length (damping_matrix s) = n"
  shows "length (effective_rhs p dt s) = n
       \<and> (\<forall>i<n. effective_rhs p dt s ! i =
             system_rhs s ! i - row_dot (stiffness_matrix s ! i) predictor
               - 1 * row_dot (damping_matrix s ! i) (previous_velocity s)
               - 1 * row_dot (damping_matrix s ! i) (previous_acceleration s))"
  using fsi implicit len
  unfolding effective_rhs_def predictor_def nm_def
  by (simp add: Let_def vsub_nth length_vsub vmult_nth length_vmult)

theorem newmark_update_laws_witness:
  "\<exists>s'. run_one_step (\<lambda>A x b. Inr [2]) keep_assembly solid_run False one_dof_state = Inr s'
     \<and> current_velocity s' ! 0 = 5 / 2 \<and> current_displacement s' ! 0 = 11 / 4"
proof -
  let ?s = "before_solve keep_assembly solid_run one_dof_state"
  have s: "?s = one_dof_state\<lparr>timestep := 2, time_current := 2\<rparr>"
    by (simp add: before_solve_def solid_run_def time_increment_def one_dof_state_def)
  have len: "length (previous_displacement ?s) = 1" "length (previous_velocity ?s) = 1"
    "length (previous_acceleration ?s) = 1" "length [2::real] = 1"
    unfolding s by (simp_all add: one_dof_state_def)
  have solved: "(\<lambda>A x b. Inr [2::real]) (effective_matrix solid_run (delta_t one_dof_state) ?s)
      (current_acceleration ?s) (effective_rhs solid_run (delta_t one_dof_state) ?s) = (Inr [2] :: error + vec)"
    by simp
  from newmark_update_laws [where solve = "\<lambda>A x b. Inr [2]" and p = solid_run
      and assemble = keep_assembly and ?s0.0 = one_dof_state and a_new = "[2]" and n = 1, OF solved len]
  show ?thesis
    unfolding s by (auto simp add: one_dof_state_def solid_run_def newmark_constants_def power2_eq_square)
qed

theorem implicit_penalty_rhs_witness:
  "simulation_type fsi_run = ''FSI''
   \<and> \<not> is_lag_penalty_explicit (before_solve keep_assembly fsi_run one_dof_state)
   \<and> effective_rhs fsi_run (delta_t one_dof_state)
        (before_solve keep_assembly fsi_run one_dof_state) = [- 1 / 2]"
proof -
  let ?s = "before_solve keep_assembly fsi_run one_dof_state"
  have s: "?s = one_dof_state\<lparr>timestep := 2, time_current := 2\<rparr>"
    by (simp add: before_solve_def fsi_run_def time_increment_def one_dof_state_def
        assemble_rhs_def keep_assembly_def)
  have fsi: "simulation_type fsi_run = ''FSI''" by (simp add: fsi_run_def)
  have implicit: "\<not> is_lag_penalty_explicit ?s" unfolding s by (simp add: one_dof_state_def)
  have len: "length (system_rhs ?s) = 1" "length (stiffness_matrix ?s) = 1"
    "length (damping_matrix ?s) = 1"
    unfolding s by (simp_all add: one_dof_state_def)
  from implicit_penalty_rhs [where p = fsi_run and assemble = keep_assembly
      and ?s0.0 = one_dof_state and n = 1, OF fsi implicit len]
  have "length (effective_rhs fsi_run (delta_t one_dof_state) ?s) = 1"
    and "effective_rhs fsi_run (delta_t one_dof_state) ?s ! 0 = - 1 / 2"
    unfolding s by (simp_all add: one_dof_state_def fsi_run_def newmark_constants_def row_dot_def vadd2_def)
  then have "effective_rhs fsi_run (delta_t one_dof_state) ?s = [- 1 / 2]"
    by (cases "effective_rhs fsi_run (delta_t one_dof_state) ?s") auto
  with fsi implicit show ?thesis by simp
qed

lemma fold_local_matrix_fluid:
  "fold (\<lambda>q entry. add_stokes_term p q i j (add_mass_term p dt 0 q i j entry)) qs e =
     e + fluid_rho p / dt * mass_integral qs i j + stokes_integral p qs i j"
proof (induction qs arbitrary: e)
  case Nil
  show ?case by (simp add: mass_integral_def stokes_integral_def)
next
  case (Cons q qs)
  show ?case
    apply (simp only: fold_simps Cons.IH)
    apply (simp add: add_stokes_term_def add_mass_term_def mass_integral_def
        stokes_integral_def mass_coef_f_def dt_inv_def algebra_simps)
    done
qed

lemma fold_local_matrix_solid:
  assumes "ind \<noteq> 0"
  shows "fold (\<lambda>q entry. add_stokes_term p q i j (add_mass_term p dt ind q i j entry)) qs e =
     e + (1 + penalty_scale_factor p) * fluid_solid_rho p / dt * mass_integral qs i j
       + stokes_integral p qs i j"
proof (induction qs arbitrary: e)
  case Nil
  show ?case by (simp add: mass_integral_def stokes_integral_def)
next
  case (Cons q qs)
  show ?case using assms
    apply (simp only: fold_simps Cons.IH)
    apply (simp add: add_stokes_term_def add_mass_term_def mass_integral_def
        stokes_integral_def mass_coef_s_def dt_inv_def algebra_simps add_divide_distrib)
    done
qed

text \<open>
  C7.  In the fluid assembly the coefficient of the velocity mass term of a cell is chosen
  by the cell's indicator: for indicator 0 it is the fluid density over \<open>dt\<close>, for every
  other indicator it is \<open>(1 + theta)\<close> times the solid density over \<open>dt\<close>, with \<open>theta\<close>
  the penalty scale factor.  This holds for the local matrix of the cell, whose entry is
  that coefficient times the velocity mass integral plus the Stokes terms, and for the
  velocity block of the preconditioner and the velocity term of the right-hand side,
  which take the same coefficient.
\<close>

theorem indicator_selects_mass_coefficient:
  fixes p :: fluid_parameters and dt :: real and ind :: int
  defines "coef \<equiv> (if ind = 0 then fluid_rho p / dt
                   else (1 + penalty_scale_factor p) * fluid_solid_rho p / dt)"
  shows "local_matrix_entry p dt ind qs i j =
           coef * mass_integral qs i j + stokes_integral p qs i j
       \<and> (component i < space_dim \<and> component j < space_dim \<longrightarrow>
            add_preconditioner_term p dt ind space_dim component q i j entry =
              entry + (coef * dot1 (phi_u q ! i) (phi_u q ! j)
                       + viscosity p * scalar_product (grad_phi_u q ! i) (grad_phi_u q ! j))
                      * JxW q)
       \<and> add_rhs_terms p dt ind q i entry =
           entry + dot1 (phi_u q ! i) (gravity p) * JxW q
             + coef * dot1 (phi_u q ! i) (current_velocity_value q) * JxW q"
  unfolding coef_def
  by (simp add: local_matrix_entry_def fold_local_matrix_fluid fold_local_matrix_solid
      add_preconditioner_term_def add_rhs_terms_def mass_coef_f_def mass_coef_s_def dt_inv_def)

theorem indicator_selects_mass_coefficient_witness:
  "local_matrix_entry water_and_rubber (1/2) 0 [unit_point] 0 0 = 4
   \<and> local_matrix_entry water_and_rubber (1/2) 1 [unit_point] 0 0 = 24
   \<and> (0::nat) < 2
   \<and> add_preconditioner_term water_and_rubber (1/2) (- 3) 2 (\<lambda>k. 0) unit_point 0 0 0 = 24"
  using indicator_selects_mass_coefficient
      [where p = water_and_rubber and dt = "1/2" and ind = 0 and qs = "[unit_point]"
         and i = 0 and j = 0]
    indicator_selects_mass_coefficient
      [where p = water_and_rubber and dt = "1/2" and ind = 1 and qs = "[unit_point]"
         and i = 0 and j = 0]
    indicator_selects_mass_coefficient
      [where p = water_and_rubber and dt = "1/2" and ind = "- 3" and space_dim = 2
         and component = "\<lambda>k. 0" and q = unit_point and i = 0 and j = 0 and entry = 0]
  by (simp add: mass_integral_def stokes_integral_def unit_point_def water_and_rubber_def
      dot1_def scalar_product_def)

lemma Stokes_constructor_fails_iff:
  "Stokes_constructor v p = Inl ConfigurationError \<longleftrightarrow> v \<noteq> p + 1"
  by (auto simp: Stokes_constructor_def)

lemma SableWrap_constructor_fails_iff:
  "SableWrap_constructor v p = Inl ConfigurationError \<longleftrightarrow> v \<noteq> p"
  by (auto simp: SableWrap_constructor_def bool_to_int_def)

text \<open>
  C9.  The standalone fluid integrator rejects every pair of degrees in which the velocity
  degree is not the pressure degree plus one, and the wrapper is meant to reject every
  pair that is not first order for both.  With second-order elements for both, the
  standalone integrator fails, but the wrapper is constructed: its condition compares the
  result of the first comparison with 1, so it only asks for equal degrees.
\<close>

theorem wrapper_accepts_second_order:
  "SableWrap_constructor 2 2 = Inr () \<and> Stokes_constructor 2 2 = Inl ConfigurationError"
  by (simp add: SableWrap_constructor_def Stokes_constructor_def bool_to_int_def)

lemma length_materials: "length (LinearElasticity_materials p) = n_solid_parts p"
  by (simp add: LinearElasticity_materials_def)

text \<open>
  C2, as stated, fails: with two materials configured, a cell whose material id is 3 is
  not rejected with a configuration error, neither in the assembly nor in the update of
  strain and stress; both read outside the material list.
\<close>

theorem material_id_beyond_list_counterexample:
  "1 < n_solid_parts two_parts \<and> n_solid_parts two_parts < 3
   \<and> assemble_material (LinearElasticity_materials two_parts) 3 = Inr OutsideVector
   \<and> update_strain_and_stress_material two_parts (LinearElasticity_materials two_parts) 3
       = Inr OutsideVector"
  by (simp add: assemble_material_def update_strain_and_stress_material_def two_parts_def
      vector_subscript_def LinearElasticity_materials_def)

text \<open>
  C2, amended.  The solid integrator does not check a cell's material id against the
  material list, and no configuration error comes out of the lookup.  The assembly and the
  update of strain and stress take the same material: with one material configured, that
  material for every cell; with more, for an id between 1 and the number of materials,
  the material at position id - 1.  With none or more than one material configured, an id
  beyond the number of materials, or the id 0, indexes outside the material list.
\<close>

theorem material_lookup_unchecked:
  fixes p :: material_parameters
  defines "material \<equiv> LinearElasticity_materials p"
  shows "update_strain_and_stress_material p material cell_id = assemble_material material cell_id
       \<and> (\<forall>e. assemble_material material cell_id \<noteq> Inl e)
       \<and> (n_solid_parts p = 1 \<longrightarrow>
            assemble_material material cell_id = Inr (Element (material ! 0)))
       \<and> (1 < n_solid_parts p \<and> 1 \<le> cell_id \<and> cell_id \<le> n_solid_parts p \<longrightarrow>
            assemble_material material cell_id = Inr (Element (material ! (cell_id - 1))))
       \<and> (n_solid_parts p \<noteq> 1 \<and> (cell_id = 0 \<or> n_solid_parts p < cell_id) \<longrightarrow>
            assemble_material material cell_id = Inr OutsideVector)"
  unfolding material_def
  by (auto simp add: assemble_material_def update_strain_and_stress_material_def
      length_materials vector_subscript_def Let_def nat_diff_distrib' simp del: upt_Suc)

theorem material_lookup_unchecked_witness:
  "n_solid_parts one_part = 1
   \<and> assemble_material (LinearElasticity_materials one_part) 7
       = Inr (Element \<lparr>young = 100, poisson = 0.3, density = 1, damping_coefficient = 0\<rparr>)
   \<and> 1 < n_solid_parts two_parts \<and> (1::nat) \<le> 2 \<and> 2 \<le> n_solid_parts two_parts
   \<and> assemble_material (LinearElasticity_materials two_parts) 2
       = Inr (Element \<lparr>young = 200, poisson = 0.4, density = 1, damping_coefficient = 0\<rparr>)
   \<and> n_solid_parts two_parts \<noteq> 1 \<and> n_solid_parts two_parts < 5
   \<and> assemble_material (LinearElasticity_materials two_parts) 5 = Inr OutsideVector
   \<and> update_strain_and_stress_material two_parts (LinearElasticity_materials two_parts) 0
       = Inr OutsideVector"
proof -
  have one: "LinearElasticity_materials one_part
      = [\<lparr>young = 100, poisson = 0.3, density = 1, damping_coefficient = 0\<rparr>]"
    by (simp add: one_part_def LinearElasticity_materials_def)
  have two: "LinearElasticity_materials two_parts
      = [\<lparr>young = 100, poisson = 0.3, density = 1, damping_coefficient = 0\<rparr>,
         \<lparr>young = 200, poisson = 0.4, density = 1, damping_coefficient = 0\<rparr>]"
    by (simp add: two_parts_def LinearElasticity_materials_def numeral_2_eq_2)
  have n1: "n_solid_parts one_part = 1" by (simp add: one_part_def)
  have n2: "n_solid_parts two_parts = 2" by (simp add: two_parts_def)
  have "assemble_material (LinearElasticity_materials one_part) 7
      = Inr (Element (LinearElasticity_materials one_part ! 0))"
    using material_lookup_unchecked [of one_part 7] n1 by blast
  moreover have "assemble_material (LinearElasticity_materials two_parts) 2
      = Inr (Element (LinearElasticity_materials two_parts ! (2 - 1)))"
    using material_lookup_unchecked [of two_parts 2] n2 by simp
  moreover have "assemble_material (LinearElasticity_materials two_parts) 5 = Inr OutsideVector"
    using material_lookup_unchecked [of two_parts 5] n2 by simp
  moreover have "update_strain_and_stress_material two_parts (LinearElasticity_materials two_parts) 0
       = Inr OutsideVector"
    using material_lookup_unchecked [of two_parts 0] n2 by simp
  ultimately show ?thesis
    unfolding one two n1 n2 by simp
qed

lemma fold_max_flags:
  "0 \<le> m \<Longrightarrow> (fold max (map flag_to_int bs) m = 0) \<longleftrightarrow> (m = 0 \<and> (\<forall>b\<in>set bs. b))"
proof (induction bs arbitrary: m)
  case Nil
  show ?case by simp
next
  case (Cons b bs)
  have "0 \<le> max (flag_to_int b) m" using Cons.prems by simp
  from Cons.IH [OF this] show ?case using Cons.prems
    by (auto simp: flag_to_int_def max_def)
qed

lemma All_reduce_iff: "All_reduce my_b others \<longleftrightarrow> my_b \<and> (\<forall>b\<in>set others. b)"
  unfolding All_reduce_def mpi_allreduce_max_def Let_def
  by (subst fold_max_flags) (auto simp: flag_to_int_def)

lemma fold_max_ge: "m \<le> fold max ds (m::real)"
proof (induction ds arbitrary: m)
  case Nil show ?case by simp
next
  case (Cons d ds)
  have "m \<le> max d m" by simp
  also have "\<dots> \<le> fold max ds (max d m)" by (rule Cons.IH)
  finally show ?case by simp
qed

lemma fold_max_pos: "\<exists>d\<in>set ds. 0 < d \<Longrightarrow> 0 < fold max ds (m::real)"
proof (induction ds arbitrary: m)
  case Nil then show ?case by simp
next
  case (Cons d ds)
  show ?case
  proof (cases "0 < d")
    case True
    then have "0 < max d m" by simp
    also have "\<dots> \<le> fold max ds (max d m)" by (rule fold_max_ge)
    finally show ?thesis by simp
  next
    case False
    with Cons.prems have "\<exists>d\<in>set ds. 0 < d" by auto
    from Cons.IH [OF this] show ?thesis by simp
  qed
qed

lemma loop_body_flag:
  assumes "clock_ok st" "is_comm_active st"
  shows "is_comm_active (loop_body x st) \<longleftrightarrow> (\<forall>b\<in>set (peer_flags x). b)"
  using assms
  by (auto simp: loop_body_def clock_ok_def SableWrap_run_one_step_def get_dt_sable_def
      All_reduce_iff Let_def)

lemma loop_body_clock:
  assumes "clock_ok st" "\<exists>d\<in>set (peer_dt x). 0 < d"
  shows "clock_ok (loop_body x st)" "sable_timestep (loop_body x st) = sable_timestep st + 1"
  using assms fold_max_pos [of "peer_dt x" 0]
  by (auto simp: loop_body_def clock_ok_def SableWrap_run_one_step_def get_dt_sable_def
      Let_def mpi_allreduce_max_def add_nonneg_pos add_pos_pos)


lemma run_while_all_active:
  assumes "clock_ok st" "is_comm_active st"
    and "\<forall>x\<in>set pre. (\<exists>d\<in>set (peer_dt x). 0 < d) \<and> (\<forall>b\<in>set (peer_flags x). b)"
  shows "SableWrap_run (pre @ rest) st = SableWrap_run rest (fold loop_body pre st)
       \<and> clock_ok (fold loop_body pre st) \<and> is_comm_active (fold loop_body pre st)
       \<and> sable_timestep (fold loop_body pre st) = sable_timestep st + length pre"
  using assms
proof (induction pre arbitrary: st)
  case Nil
  then show ?case by simp
next
  case (Cons y pre)
  have y: "\<exists>d\<in>set (peer_dt y). 0 < d" "\<forall>b\<in>set (peer_flags y). b"
    using Cons.prems(3) by auto
  have c: "clock_ok (loop_body y st)" and t: "sable_timestep (loop_body y st) = sable_timestep st + 1"
    using loop_body_clock [OF Cons.prems(1) y(1)] by auto
  have a: "is_comm_active (loop_body y st)"
    using loop_body_flag [OF Cons.prems(1,2)] y(2) by simp
  have r: "\<forall>x\<in>set pre. (\<exists>d\<in>set (peer_dt x). 0 < d) \<and> (\<forall>b\<in>set (peer_flags x). b)"
    using Cons.prems(3) by auto
  from Cons.IH [OF c a r] show ?case
    using Cons.prems(2) t by simp
qed

text \<open>
  C3, amended.  The flag after an exchange is the conjunction of the flags of all ranks,
  so the loop goes on exactly as long as every rank reports active, and it ends at the
  first step at which at least one rank reports inactive: not earlier, since the loop is
  still running after the steps before, and not later, whatever the ranks pass
  afterwards.  The reduced value does not depend on which rank asks, so every rank leaves
  the loop at the same step.  The step sizes passed by the peers are positive.
\<close>

theorem exchange_loop_ends_at_first_inactive_report:
  assumes "clock_ok st" and "is_comm_active st"
    and "\<forall>y\<in>set pre. (\<exists>d\<in>set (peer_dt y). 0 < d) \<and> (\<forall>b\<in>set (peer_flags y). b)"
    and "\<exists>d\<in>set (peer_dt x). 0 < d" and "\<exists>b\<in>set (peer_flags x). \<not> b"
  shows "SableWrap_run pre st = None
       \<and> (\<exists>st'. SableWrap_run (pre @ x # post) st = Some st' \<and> \<not> is_comm_active st'
                \<and> sable_timestep st' = sable_timestep st + length pre + 1)
       \<and> (\<forall>my_b others. All_reduce my_b others \<longleftrightarrow> my_b \<and> (\<forall>b\<in>set others. b))
       \<and> (\<forall>b1 b2 others. All_reduce b1 (b2 # others) = All_reduce b2 (b1 # others))"
proof -
  let ?s = "fold loop_body pre st"
  have none: "SableWrap_run pre st = None"
    using run_while_all_active [OF assms(1,2,3), of "[]"] by simp
  have run: "SableWrap_run (pre @ x # post) st = SableWrap_run (x # post) ?s"
    and c: "clock_ok ?s" and a: "is_comm_active ?s"
    and t: "sable_timestep ?s = sable_timestep st + length pre"
    using run_while_all_active [OF assms(1,2,3), of "x # post"] by auto
  have off: "\<not> is_comm_active (loop_body x ?s)"
    using loop_body_flag [OF c a, of x] assms(5) by simp
  have t': "sable_timestep (loop_body x ?s) = sable_timestep st + length pre + 1"
    using loop_body_clock(2) [OF c assms(4)] t by simp
  have "SableWrap_run (x # post) ?s = Some (loop_body x ?s)"
    using a off by (cases post) simp_all
  with run off t' have "\<exists>st'. SableWrap_run (pre @ x # post) st = Some st' \<and> \<not> is_comm_active st'
                \<and> sable_timestep st' = sable_timestep st + length pre + 1"
    by simp
  with none show ?thesis by (auto simp: All_reduce_iff)
qed

theorem exchange_loop_ends_at_first_inactive_report_witness:
  "SableWrap_run [all_peers_active] sable_start = None
   \<and> SableWrap_run [all_peers_active, one_peer_inactive, all_peers_active] sable_start
       = Some \<lparr>is_comm_active = False, sable_timestep = 2, sable_time_current = 2,
               sable_delta_t = 1\<rparr>"
proof -
  have 1: "clock_ok sable_start" by (simp add: clock_ok_def sable_start_def)
  have 2: "is_comm_active sable_start" by (simp add: sable_start_def)
  have 3: "\<forall>y\<in>set [all_peers_active]. (\<exists>d\<in>set (peer_dt y). 0 < d) \<and> (\<forall>b\<in>set (peer_flags y). b)"
    by (simp add: all_peers_active_def)
  have 4: "\<exists>d\<in>set (peer_dt one_peer_inactive). 0 < d" by (simp add: one_peer_inactive_def)
  have 5: "\<exists>b\<in>set (peer_flags one_peer_inactive). \<not> b" by (auto simp add: one_peer_inactive_def)
  have run: "SableWrap_run [all_peers_active, one_peer_inactive, all_peers_active] sable_start
       = Some \<lparr>is_comm_active = False, sable_timestep = 2, sable_time_current = 2,
               sable_delta_t = 1\<rparr>"
    by (simp add: sable_start_def all_peers_active_def one_peer_inactive_def loop_body_def
        SableWrap_run_one_step_def get_dt_sable_def All_reduce_def mpi_allreduce_max_def
        flag_to_int_def)
  from exchange_loop_ends_at_first_inactive_report [OF 1 2 3 4 5, of "[all_peers_active]"]
  show ?thesis using run by simp
qed

text \<open>
  C3, as stated, fails: the loop does not wait until every rank reports inactive.  With
  the wrapper itself and one peer reporting active and a second peer reporting inactive,
  the loop ends at that step.
\<close>

theorem exchange_loop_termination_counterexample:
  "SableWrap_run [one_peer_inactive] sable_start
     = Some \<lparr>is_comm_active = False, sable_timestep = 1, sable_time_current = 1,
             sable_delta_t = 1\<rparr>
   \<and> \<not> (\<forall>b\<in>set (is_comm_active sable_start # peer_flags one_peer_inactive). \<not> b)"
  by (simp add: sable_start_def one_peer_inactive_def loop_body_def
      SableWrap_run_one_step_def get_dt_sable_def All_reduce_def mpi_allreduce_max_def
      flag_to_int_def)










































lemma fold_closer_le: "fst (fold (closer p) dofs acc) \<le> fst acc"
proof (induction dofs arbitrary: acc)
  case Nil
  show ?case by simp
next
  case (Cons d dofs)
  have "fst (closer p d acc) \<le> fst acc"
    by (simp add: closer_def Let_def split: option.split)
  with Cons.IH [of "closer p d acc"] show ?case by simp
qed





lemma local_search_le_max: "fst (local_search p) \<le> double_max"
  unfolding local_search_def using fold_closer_le [of p _ "(double_max, invalid_dof_index)"]
  by simp































lemma fold_add_row: "fold (\<lambda>j sum. sum + row ! j) [0..<n] (s::real) = s + (\<Sum>j<n. row ! j)"
  by (induction n arbitrary: s) simp_all

lemma lump_nth:
  assumes "i < n" "j < n"
  shows "lump n A ! i ! j = (if i = j then (\<Sum>k<n. A ! i ! k) else 0)"
  using assms by (simp add: lump_def lump_row_def fold_add_row)

lemma square_lump: "square n (lump n A)"
  by (simp add: square_def lump_def lump_row_def)

lemma lump_row_sum:
  assumes "i < n"
  shows "(\<Sum>j<n. lump n A ! i ! j) = (\<Sum>j<n. A ! i ! j)"
proof -
  have "(\<Sum>j<n. lump n A ! i ! j) = (\<Sum>j<n. if i = j then (\<Sum>k<n. A ! i ! k) else 0)"
    using assms by (intro sum.cong refl) (simp add: lump_nth)
  also have "\<dots> = (\<Sum>k<n. A ! i ! k)"
    using assms by simp
  finally show ?thesis .
qed

lemma distributed_row_sum:
  assumes "unit_weights constraints idx n"
  shows "row_sum n (distribute_local_to_global constraints A idx global) g =
     row_sum n global g
       + (\<Sum>i<length idx. weight constraints (idx ! i) g * (\<Sum>j<length idx. A ! i ! j))"
proof -
  let ?m = "length idx"
  let ?w = "\<lambda>i g. weight constraints (idx ! i) g"
  have "(\<Sum>h<n. \<Sum>i<?m. \<Sum>j<?m. ?w i g * ?w j h * A ! i ! j)
      = (\<Sum>i<?m. \<Sum>j<?m. \<Sum>h<n. ?w i g * ?w j h * A ! i ! j)"
    by (subst sum.swap, rule sum.cong [OF refl], rule sum.swap)
  also have "\<dots> = (\<Sum>i<?m. \<Sum>j<?m. ?w i g * A ! i ! j * (\<Sum>h<n. ?w j h))"
    by (intro sum.cong refl) (simp add: sum_distrib_left mult_ac)
  also have "\<dots> = (\<Sum>i<?m. \<Sum>j<?m. ?w i g * A ! i ! j)"
    using assms by (intro sum.cong refl) (simp add: unit_weights_def)
  also have "\<dots> = (\<Sum>i<?m. ?w i g * (\<Sum>j<?m. A ! i ! j))"
    by (simp add: sum_distrib_left)
  finally show ?thesis
    by (simp add: row_sum_def distribute_local_to_global_def sum.distrib)
qed

text \<open>
  C6, amended.  The lumped local matrix of a cell has on its diagonal the sums of the rows
  of the consistent local matrix and zero elsewhere, so every row of it has the sum of
  the row it was lumped from.  After the distribution to the global matrix this still
  holds for every degree of freedom when the constraint weights of every degree of
  freedom of the cell add up to one, as without constraints and at hanging nodes.
\<close>

theorem lumping_keeps_row_sums:
  assumes "square n A" and "length idx = n" and "unit_weights constraints idx m"
  shows "(\<forall>i<n. \<forall>j<n. lump n A ! i ! j = (if i = j then (\<Sum>k<n. A ! i ! k) else 0))
       \<and> (\<forall>i<n. (\<Sum>j<n. lump n A ! i ! j) = (\<Sum>j<n. A ! i ! j))
       \<and> (\<forall>g. row_sum m (distribute_local_to_global constraints (lump n A) idx global) g
              = row_sum m (distribute_local_to_global constraints A idx global) g)"
proof -
  have "(\<Sum>i<n. weight constraints (idx ! i) g * (\<Sum>j<n. lump n A ! i ! j))
      = (\<Sum>i<n. weight constraints (idx ! i) g * (\<Sum>j<n. A ! i ! j))" for g
    by (intro sum.cong refl) (simp add: lump_row_sum)
  then have "row_sum m (distribute_local_to_global constraints (lump n A) idx global) g
      = row_sum m (distribute_local_to_global constraints A idx global) g" for g
    using assms(2) by (simp add: distributed_row_sum [OF assms(3)])
  then show ?thesis by (simp add: lump_nth lump_row_sum)
qed

lemma example_weights:
  "weight hanging_node 0 g = (if g = 0 then 1 else 0)"
  "weight hanging_node (Suc 0) g = (if g = 0 then 1 / 2 else 0) + (if g = 2 then 1 / 2 else 0)"
  "weight dirichlet_value 0 g = (if g = 0 then 1 else 0)"
  "weight dirichlet_value (Suc 0) g = 0"
  by (simp_all add: weight_def resolve_def hanging_node_def dirichlet_value_def)

lemma example_unit_weights: "unit_weights hanging_node [0, 1] 3"
  by (simp add: unit_weights_def less_Suc_eq example_weights numeral_3_eq_3)

lemma example_square: "square 2 two_dof_mass"
  by (simp add: square_def two_dof_mass_def less_Suc_eq numeral_2_eq_2)

lemma example_lump: "lump 2 two_dof_mass = [[3, 0], [0, 3]]"
  by (simp add: lump_def lump_row_def two_dof_mass_def numeral_2_eq_2)

theorem lumping_keeps_row_sums_witness:
  "square 2 two_dof_mass \<and> length [0, 1 :: nat] = 2 \<and> unit_weights hanging_node [0, 1] 3
   \<and> row_sum 3 (distribute_local_to_global hanging_node (lump 2 two_dof_mass) [0, 1] (\<lambda>g h. 0)) 0
       = row_sum 3 (distribute_local_to_global hanging_node two_dof_mass [0, 1] (\<lambda>g h. 0)) 0
   \<and> row_sum 3 (distribute_local_to_global hanging_node two_dof_mass [0, 1] (\<lambda>g h. 0)) 0 = 9 / 2"
proof -
  have len: "length [0, 1 :: nat] = 2" by simp
  have v: "row_sum 3 (distribute_local_to_global hanging_node two_dof_mass [0, 1] (\<lambda>g h. 0)) 0 = 9 / 2"
    by (simp add: row_sum_def distribute_local_to_global_def example_weights two_dof_mass_def
        numeral_3_eq_3)
  from lumping_keeps_row_sums [OF example_square len example_unit_weights, of "\<lambda>g h. 0"]
  show ?thesis using example_square example_unit_weights v by simp
qed

text \<open>
  C6, as stated, fails under a Dirichlet constraint: with degree of freedom 1 eliminated,
  row 0 of the distributed lumped matrix sums to 3, and row 0 of the distributed
  consistent matrix to 2; the lumped diagonal keeps the mass coupled to the eliminated
  degree of freedom.
\<close>

theorem lumped_row_sum_dirichlet_counterexample:
  "row_sum 2 (distribute_local_to_global dirichlet_value (lump 2 two_dof_mass) [0, 1] (\<lambda>g h. 0)) 0 = 3
   \<and> row_sum 2 (distribute_local_to_global dirichlet_value two_dof_mass [0, 1] (\<lambda>g h. 0)) 0 = 2"
proof
  show "row_sum 2 (distribute_local_to_global dirichlet_value (lump 2 two_dof_mass) [0, 1]
      (\<lambda>g h. 0)) 0 = 3"
    unfolding example_lump
    by (simp add: row_sum_def distribute_local_to_global_def example_weights numeral_2_eq_2)
  show "row_sum 2 (distribute_local_to_global dirichlet_value two_dof_mass [0, 1]
      (\<lambda>g h. 0)) 0 = 2"
    by (simp add: row_sum_def distribute_local_to_global_def example_weights two_dof_mass_def
        numeral_2_eq_2)
qed

end
